theory Spec2Isabelle
  imports Main "HOL-Library.Word"
begin

section \<open>JavaScript strings\<close>

text \<open>
  The script under verification is \<^verbatim>\<open>static/js/auth.js\<close>. A JavaScript string is a
  sequence of UTF-16 code units; \<^verbatim>\<open>length\<close>, \<^verbatim>\<open>substring\<close>, \<^verbatim>\<open>split\<close> and regular
  expressions without the \<^verbatim>\<open>u\<close> flag all work on code units. ASCII literals of the
  source are written \<open>js ''...''\<close>; the Persian labels are given by their code units.
\<close>

type_synonym code_unit = "16 word"
type_synonym jstring = "code_unit list"

definition cu :: "char \<Rightarrow> code_unit" where
  "cu c = of_char c"

definition js :: "string \<Rightarrow> jstring" where
  "js s = map cu s"

text \<open>The character classes of the regular expressions used by the script.\<close>

definition lower_az :: "code_unit \<Rightarrow> bool" where
  "lower_az c = (cu CHR ''a'' \<le> c \<and> c \<le> cu CHR ''z'')"

definition upper_AZ :: "code_unit \<Rightarrow> bool" where
  "upper_AZ c = (cu CHR ''A'' \<le> c \<and> c \<le> cu CHR ''Z'')"

definition digit_09 :: "code_unit \<Rightarrow> bool" where
  "digit_09 c = (cu CHR ''0'' \<le> c \<and> c \<le> cu CHR ''9'')"

definition not_alnum :: "code_unit \<Rightarrow> bool" where
  \<comment> \<open>the negated class \<^verbatim>\<open>[^A-Za-z0-9]\<close>\<close>
  "not_alnum c = (\<not> (upper_AZ c \<or> lower_az c \<or> digit_09 c))"

definition regex_test :: "(code_unit \<Rightarrow> bool) \<Rightarrow> jstring \<Rightarrow> bool" where
  \<comment> \<open>\<^verbatim>\<open>/[class]/.test(s)\<close>: some code unit of \<open>s\<close> is in the class\<close>
  "regex_test cls s = list_ex cls s"

section \<open>Password strength checker\<close>

text \<open>
  \<^verbatim>\<open>checkPasswordStrength(password)\<close> writes to two elements of the page,
  \<^verbatim>\<open>#strengthFill\<close> (style width and background colour) and \<^verbatim>\<open>#strengthText\<close> (text
  content and style colour). The record \<open>meter\<close> holds these four properties of a page
  that has both elements.
\<close>

record meter =
  fill_width :: jstring
  fill_backgroundColor :: jstring
  text_textContent :: jstring
  text_color :: jstring

definition label_weak :: jstring where
  "label_weak = [0x636, 0x639, 0x6CC, 0x641]"

definition label_medium :: jstring where
  "label_medium = [0x645, 0x62A, 0x648, 0x633, 0x637]"

definition label_strong :: jstring where
  "label_strong = [0x642, 0x648, 0x6CC]"

text \<open>
  The value of the local variable \<^verbatim>\<open>strength\<close> when the function is left. On the empty
  password (\<^verbatim>\<open>!password\<close>) the function returns before any test, with \<^verbatim>\<open>strength\<close>
  still 0.
\<close>

definition strength :: "jstring \<Rightarrow> nat" where
  "strength password =
     (if password = [] then 0
      else
        let s = 0;
            s = (if length password \<ge> 8 then s + 1 else s);
            s = (if length password \<ge> 12 then s + 1 else s);
            s = (if regex_test lower_az password then s + 1 else s);
            s = (if regex_test upper_AZ password then s + 1 else s);
            s = (if regex_test digit_09 password then s + 1 else s);
            s = (if regex_test not_alnum password then s + 1 else s)
        in s)"

definition checkPasswordStrength :: "jstring \<Rightarrow> meter \<Rightarrow> meter" where
  "checkPasswordStrength password m =
     (if password = [] then
        m\<lparr>fill_width := js ''0%'', fill_backgroundColor := js ''#e9ecef'',
          text_textContent := []\<rparr>
      else
        let (width, color, text) =
              (if strength password \<le> 2 then (js ''33%'', js ''#dc3545'', label_weak)
               else if strength password \<le> 4 then (js ''66%'', js ''#ffc107'', label_medium)
               else (js ''100%'', js ''#198754'', label_strong))
        in m\<lparr>fill_width := width, fill_backgroundColor := color,
             text_textContent := text, text_color := color\<rparr>)"

definition meter0 :: meter where
  \<comment> \<open>a meter before any input, used in examples\<close>
  "meter0 = \<lparr>fill_width = [], fill_backgroundColor = [], text_textContent = [], text_color = []\<rparr>"

section \<open>Numbers and their string forms\<close>

text \<open>
  The numbers of the script are the countdown's seconds. \<open>Num i\<close> is the integer \<open>i\<close>
  (exactly representable as a JavaScript number while \<open>\<bar>i\<bar> < 2 ^ 53\<close>, far beyond any
  countdown), \<open>NaN\<close> is what \<^verbatim>\<open>parseInt\<close> gives on text that has no number in it. The
  script never produces fractions: its only division is under \<^verbatim>\<open>Math.floor\<close>.
\<close>

datatype jsnum = NaN | Num int

definition is_ws :: "code_unit \<Rightarrow> bool" where
  \<comment> \<open>white space and line terminators, as stripped by \<^verbatim>\<open>trim\<close> and skipped by \<^verbatim>\<open>parseInt\<close>\<close>
  "is_ws c = (c \<in> set [0x9, 0xA, 0xB, 0xC, 0xD, 0x20, 0xA0, 0x1680, 0x2028, 0x2029,
                        0x202F, 0x205F, 0x3000, 0xFEFF]
              \<or> (0x2000 \<le> c \<and> c \<le> 0x200A))"

definition trim :: "jstring \<Rightarrow> jstring" where
  "trim s = rev (dropWhile is_ws (rev (dropWhile is_ws s)))"

fun digits :: "nat \<Rightarrow> jstring" where
  "digits n = (if n < 10 then [cu CHR ''0'' + of_nat n]
               else digits (n div 10) @ [cu CHR ''0'' + of_nat (n mod 10)])"

declare digits.simps [simp del]

definition num_toString :: "jsnum \<Rightarrow> jstring" where
  "num_toString x =
     (case x of
        NaN \<Rightarrow> js ''NaN''
      | Num i \<Rightarrow> if i < 0 then cu CHR ''-'' # digits (nat (- i)) else digits (nat i))"

definition padStart :: "nat \<Rightarrow> code_unit \<Rightarrow> jstring \<Rightarrow> jstring" where
  \<comment> \<open>\<^verbatim>\<open>s.padStart(n, c)\<close> for a one-character pad string\<close>
  "padStart n c s = replicate (n - length s) c @ s"

definition floor_div :: "jsnum \<Rightarrow> int \<Rightarrow> jsnum" where
  \<comment> \<open>\<^verbatim>\<open>Math.floor(x / d)\<close> for a positive \<open>d\<close>\<close>
  "floor_div x d = (case x of NaN \<Rightarrow> NaN | Num i \<Rightarrow> Num (i div d))"

definition js_rem :: "jsnum \<Rightarrow> int \<Rightarrow> jsnum" where
  \<comment> \<open>\<^verbatim>\<open>x % d\<close> for a positive \<open>d\<close>: the result has the sign of \<open>x\<close>\<close>
  "js_rem x d = (case x of NaN \<Rightarrow> NaN
                 | Num i \<Rightarrow> Num (if i < 0 then - ((- i) mod d) else i mod d))"

definition le_zero :: "jsnum \<Rightarrow> bool" where
  \<comment> \<open>\<^verbatim>\<open>x <= 0\<close>; every comparison with NaN is false\<close>
  "le_zero x = (case x of NaN \<Rightarrow> False | Num i \<Rightarrow> i \<le> 0)"

definition decrement :: "jsnum \<Rightarrow> jsnum" where
  "decrement x = (case x of NaN \<Rightarrow> NaN | Num i \<Rightarrow> Num (i - 1))"

subsection \<open>parseInt\<close>

definition digit_of :: "code_unit \<Rightarrow> nat option" where
  "digit_of c =
     (if digit_09 c then Some (unat c - 48)
      else if lower_az c then Some (unat c - 87)
      else if upper_AZ c then Some (unat c - 55)
      else None)"

definition radix_digit :: "nat \<Rightarrow> code_unit \<Rightarrow> bool" where
  "radix_digit r c = (case digit_of c of None \<Rightarrow> False | Some v \<Rightarrow> v < r)"

definition radix_value :: "nat \<Rightarrow> jstring \<Rightarrow> nat" where
  "radix_value r z =
     foldl (\<lambda>acc c. case digit_of c of None \<Rightarrow> acc | Some v \<Rightarrow> acc * r + v) 0 z"

definition parseInt_string :: "jstring \<Rightarrow> jsnum" where
  \<comment> \<open>\<^verbatim>\<open>parseInt(s)\<close> with no radix argument\<close>
  "parseInt_string s =
     (let t = dropWhile is_ws s;
          (negative, t) =
             (case t of
                [] \<Rightarrow> (False, t)
              | c # rest \<Rightarrow>
                  if c = cu CHR ''-'' then (True, rest)
                  else if c = cu CHR ''+'' then (False, rest)
                  else (False, t));
          (radix, t) =
             (case t of
                a # b # rest \<Rightarrow>
                  if a = cu CHR ''0'' \<and> (b = cu CHR ''x'' \<or> b = cu CHR ''X'') then (16, rest)
                  else (10, t)
              | _ \<Rightarrow> (10, t));
          z = takeWhile (radix_digit radix) t
      in if z = [] then NaN
         else Num (if negative then - int (radix_value radix z) else int (radix_value radix z)))"

definition parseInt :: "jstring + int \<Rightarrow> jsnum" where
  \<comment> \<open>the argument is a string or a number; a number is converted to its string first\<close>
  "parseInt v = (case v of Inl s \<Rightarrow> parseInt_string s
                 | Inr n \<Rightarrow> parseInt_string (num_toString (Num n)))"

section \<open>Countdown timer\<close>

text \<open>
  \<^verbatim>\<open>startCountdown(seconds, displayElementId)\<close> looks the display element up once and
  registers an interval callback; the callback owns the variable \<^verbatim>\<open>remaining\<close>. The
  record holds what the callback reads and writes: the element found (\<open>None\<close> for
  \<^verbatim>\<open>null\<close>), the counter, whether the interval is still registered, and the page's first
  element of class \<^verbatim>\<open>resend-btn\<close> (\<open>None\<close> when the page has none).
\<close>

datatype js_error = TypeError | ReferenceError | SyntaxError | NetworkError

record text_el =
  textContent :: jstring
  style_color :: jstring

record button =
  disabled :: bool
  btn_textContent :: jstring

record countdown =
  display :: "text_el option"
  remaining :: jsnum
  timer :: bool
  resendBtn :: "button option"

definition label_expired :: jstring where
  "label_expired = [0x645, 0x646, 0x642, 0x636, 0x6CC, 0x20, 0x634, 0x62F]"

definition label_resend :: jstring where
  "label_resend = [0x627, 0x631, 0x633, 0x627, 0x644, 0x20, 0x645, 0x62C, 0x62F, 0x62F]"

definition startCountdown :: "jsnum \<Rightarrow> text_el option \<Rightarrow> button option \<Rightarrow> countdown" where
  "startCountdown seconds element btn =
     \<lparr>display = element, remaining = seconds, timer = True, resendBtn = btn\<rparr>"

definition render :: "jsnum \<Rightarrow> jstring" where
  \<comment> \<open>the template \<^verbatim>\<open>`${minutes}:${secs.toString().padStart(2, '0')}`\<close>\<close>
  "render r =
     (let minutes = floor_div r 60; secs = js_rem r 60
      in num_toString minutes @ js '':'' @ padStart 2 (cu CHR ''0'') (num_toString secs))"

text \<open>
  One run of the interval callback. It returns the values assigned to the display's text
  content, in order, and the new state; on a missing display element the first assignment
  raises a TypeError before anything is changed.
\<close>

definition tick :: "countdown \<Rightarrow> js_error + (jstring list \<times> countdown)" where
  "tick s =
     (case display s of
        None \<Rightarrow> Inl TypeError
      | Some d \<Rightarrow>
          let shown = render (remaining s);
              s1 = s\<lparr>display := Some (d\<lparr>textContent := shown\<rparr>)\<rparr>;
              (w, s2) =
                 (if le_zero (remaining s) then
                    ([shown, label_expired],
                     s1\<lparr>timer := False,
                        display := Some (d\<lparr>textContent := label_expired,
                                          style_color := js ''#dc3545''\<rparr>),
                        resendBtn := map_option
                           (\<lambda>b. b\<lparr>disabled := False, btn_textContent := label_resend\<rparr>)
                           (resendBtn s)\<rparr>)
                  else ([shown], s1))
          in Inr (w, s2\<lparr>remaining := decrement (remaining s)\<rparr>))"

text \<open>
  One period of the interval: the callback runs only while the interval is registered; an
  exception raised by the callback is reported by the host and leaves the interval
  registered.
\<close>

definition fire :: "countdown \<Rightarrow> jstring list \<times> countdown" where
  "fire s =
     (if timer s then (case tick s of Inl e \<Rightarrow> ([], s) | Inr r \<Rightarrow> r)
      else ([], s))"

fun ticks :: "nat \<Rightarrow> countdown \<Rightarrow> countdown" where
  "ticks 0 s = s"
| "ticks (Suc n) s = ticks n (snd (fire s))"

fun writes :: "nat \<Rightarrow> countdown \<Rightarrow> jstring list list" where
  "writes 0 s = []"
| "writes (Suc n) s = fst (fire s) # writes n (snd (fire s))"

subsection \<open>The seed read at page load\<close>

definition or_300 :: "jstring option \<Rightarrow> jstring + int" where
  \<comment> \<open>\<^verbatim>\<open>timerElement.dataset.seconds || 300\<close>: \<open>None\<close> is a missing attribute
     (\<^verbatim>\<open>undefined\<close>); the empty string is falsy as well\<close>
  "or_300 a = (case a of None \<Rightarrow> Inr 300 | Some s \<Rightarrow> if s = [] then Inr 300 else Inl s)"

definition timer_seed :: "jstring option \<Rightarrow> jsnum" where
  "timer_seed a = parseInt (or_300 a)"

section \<open>Form validation\<close>

text \<open>
  A form is the list of its descendant controls in document order. Each control has the
  \<^verbatim>\<open>required\<close> attribute or not, a string value, and a class list (an ordered set of
  tokens). The document maps element ids to forms; an unknown id gives \<^verbatim>\<open>null\<close>.
\<close>

record field =
  required :: bool
  fvalue :: jstring
  classList :: "jstring list"

type_synonym form = "field list"

definition classList_add :: "jstring \<Rightarrow> jstring list \<Rightarrow> jstring list" where
  "classList_add tok cl = (if tok \<in> set cl then cl else cl @ [tok])"

definition classList_remove :: "jstring \<Rightarrow> jstring list \<Rightarrow> jstring list" where
  "classList_remove tok cl = filter (\<lambda>t. t \<noteq> tok) cl"

definition check_input :: "field \<Rightarrow> bool \<Rightarrow> field \<times> bool" where
  \<comment> \<open>the body of the \<^verbatim>\<open>forEach\<close> callback; \<open>isValid\<close> is the flag it may clear\<close>
  "check_input input isValid =
     (if trim (fvalue input) = [] then
        (input\<lparr>classList := classList_add (js ''is-invalid'') (classList input)\<rparr>, False)
      else
        (input\<lparr>classList := classList_remove (js ''is-invalid'') (classList input)\<rparr>, isValid))"

fun forEach_required :: "form \<Rightarrow> bool \<Rightarrow> form \<times> bool" where
  \<comment> \<open>\<^verbatim>\<open>form.querySelectorAll('[required]').forEach(...)\<close>, leaving the other controls alone\<close>
  "forEach_required [] isValid = ([], isValid)"
| "forEach_required (f # fs) isValid =
     (if required f then
        (let (f', v) = check_input f isValid;
             (fs', v') = forEach_required fs v
         in (f' # fs', v'))
      else
        (let (fs', v') = forEach_required fs isValid
         in (f # fs', v')))"

definition validateForm ::
  "(jstring \<rightharpoonup> form) \<Rightarrow> jstring \<Rightarrow> js_error + (bool \<times> (jstring \<rightharpoonup> form))" where
  "validateForm document formId =
     (case document formId of
        None \<Rightarrow> Inl TypeError
      | Some form \<Rightarrow>
          let (form', isValid) = forEach_required form True
          in Inr (isValid, document(formId \<mapsto> form')))"

section \<open>Phone number formatting\<close>

definition startsWith :: "jstring \<Rightarrow> jstring \<Rightarrow> bool" where
  "startsWith s p = (take (length p) s = p)"

definition substring :: "nat \<Rightarrow> nat \<Rightarrow> jstring \<Rightarrow> jstring" where
  \<comment> \<open>\<^verbatim>\<open>s.substring(a, b)\<close>: both indices are clamped to the length and swapped when
     \<open>a > b\<close>; the one-argument form \<^verbatim>\<open>s.substring(a)\<close> is \<open>drop a s\<close>\<close>
  "substring a b s =
     (let a' = min a (length s); b' = min b (length s)
      in take (max a' b' - min a' b') (drop (min a' b') s))"

definition formatPhoneNumber :: "jstring \<Rightarrow> jstring" where
  "formatPhoneNumber phone =
     (let phone = filter digit_09 phone;
          phone = (if startsWith phone (js ''98'') then drop 2 phone else phone);
          phone = (if startsWith phone (js ''0'') then drop 1 phone else phone)
      in if length phone = 10 then
           js ''0'' @ substring 0 3 phone @ js '' '' @ substring 3 6 phone @ js '' ''
             @ substring 6 10 phone
         else phone)"

section \<open>Token cookie\<close>

datatype jsval = Null | Undefined | Str jstring

definition falsy :: "jsval \<Rightarrow> bool" where
  \<comment> \<open>\<^verbatim>\<open>!v\<close>\<close>
  "falsy v = (case v of Null \<Rightarrow> True | Undefined \<Rightarrow> True | Str s \<Rightarrow> s = [])"

fun split_on :: "code_unit \<Rightarrow> jstring \<Rightarrow> jstring list" where
  \<comment> \<open>\<^verbatim>\<open>s.split(c)\<close> for a one-character separator: never the empty array\<close>
  "split_on c [] = [[]]"
| "split_on c (x # xs) =
     (if x = c then [] # split_on c xs
      else (case split_on c xs of [] \<Rightarrow> [[x]] | y # ys \<Rightarrow> (x # y) # ys))"

fun getToken_loop :: "jstring list \<Rightarrow> jsval" where
  \<comment> \<open>the \<^verbatim>\<open>for ... of\<close> loop with \<^verbatim>\<open>[name, value] = cookie.trim().split('=')\<close>: a missing
     second element leaves \<^verbatim>\<open>value\<close> undefined\<close>
  "getToken_loop [] = Null"
| "getToken_loop (cookie # cookies) =
     (case split_on (cu CHR ''='') (trim cookie) of
        [] \<Rightarrow> getToken_loop cookies
      | [name] \<Rightarrow>
          if name = js ''access_token'' then Undefined else getToken_loop cookies
      | name # value # _ \<Rightarrow>
          if name = js ''access_token'' then Str value else getToken_loop cookies)"

definition getToken :: "jstring \<Rightarrow> jsval" where
  \<comment> \<open>the argument is \<^verbatim>\<open>document.cookie\<close>\<close>
  "getToken cookie = getToken_loop (split_on (cu CHR '';'') cookie)"

section \<open>Notifications\<close>

text \<open>
  The browser state that the notification helpers and \<^verbatim>\<open>makeAuthRequest\<close> read and
  change: the cookie string, the location, the loading overlays in the body (by message,
  in document order), the toast container \<^verbatim>\<open>#liveToast\<close> (\<open>None\<close> when the page has
  none), whether the toolkit global \<^verbatim>\<open>bootstrap\<close> with its toast widget is defined, the
  properties that every object inherits (by name, with the string each one gives in a
  template; all of them are truthy), what was logged with \<^verbatim>\<open>console.error\<close>, and the
  requests handed to \<^verbatim>\<open>fetch\<close>.
\<close>

record toast_el =
  toast_text :: "jstring option"
  toast_className :: jstring
  toast_shown :: nat

text \<open>
  \<open>toast_text\<close> is the text of the container's \<^verbatim>\<open>.toast-body\<close> descendant, \<open>None\<close> when
  it has none; \<open>toast_shown\<close> counts the runs of the widget's \<^verbatim>\<open>show()\<close>.
\<close>

record request =
  req_url :: jstring
  req_method :: jstring
  req_headers :: "(jstring \<times> jstring) list"
  req_body :: "jstring option"

record browser =
  cookie :: jstring
  href :: jstring
  overlays :: "jstring list"
  liveToast :: "toast_el option"
  bootstrap :: bool
  object_prototype :: "jstring \<rightharpoonup> jstring"
  console_errors :: "js_error list"
  fetched :: "request list"

definition showLoading :: "jstring \<Rightarrow> browser \<Rightarrow> browser" where
  "showLoading message b = b\<lparr>overlays := overlays b @ [message]\<rparr>"

definition hideLoading :: "browser \<Rightarrow> browser" where
  \<comment> \<open>removes the first overlay of the document, if there is one\<close>
  "hideLoading b = b\<lparr>overlays := (case overlays b of [] \<Rightarrow> [] | _ # rest \<Rightarrow> rest)\<rparr>"

definition toast_types :: "(jstring \<times> jstring) list" where
  "toast_types =
     [(js ''success'', js ''alert-success''), (js ''error'', js ''alert-danger''),
      (js ''warning'', js ''alert-warning''), (js ''info'', js ''alert-info'')]"

definition toast_class :: "browser \<Rightarrow> jstring \<Rightarrow> jstring" where
  \<comment> \<open>\<^verbatim>\<open>types[type] || 'alert-info'\<close>: an own key of the table, else an inherited property,
     else the default\<close>
  "toast_class b type =
     (case map_of toast_types type of
        Some c \<Rightarrow> c
      | None \<Rightarrow> (case object_prototype b type of Some str \<Rightarrow> str | None \<Rightarrow> js ''alert-info''))"

text \<open>
  \<^verbatim>\<open>showToast(message, type)\<close>. The three lookups come first, and each can raise before
  anything is changed: \<^verbatim>\<open>toastEl.querySelector\<close> on a missing container (TypeError),
  \<^verbatim>\<open>new bootstrap.Toast\<close> without the toolkit (ReferenceError), and
  \<^verbatim>\<open>toastBody.textContent\<close> on a container without body (TypeError).
\<close>

definition showToast :: "jstring \<Rightarrow> jstring \<Rightarrow> browser \<Rightarrow> js_error + browser" where
  "showToast message type b =
     (case liveToast b of
        None \<Rightarrow> Inl TypeError
      | Some toastEl \<Rightarrow>
          if \<not> bootstrap b then Inl ReferenceError
          else (case toast_text toastEl of
                  None \<Rightarrow> Inl TypeError
                | Some _ \<Rightarrow>
                    Inr (b\<lparr>liveToast := Some (toastEl
                           \<lparr>toast_text := Some message,
                            toast_className := js ''toast '' @ toast_class b type,
                            toast_shown := Suc (toast_shown toastEl)\<rparr>)\<rparr>)))"

definition console_error :: "js_error \<Rightarrow> browser \<Rightarrow> browser" where
  "console_error e b = b\<lparr>console_errors := console_errors b @ [e]\<rparr>"

section \<open>Authenticated requests\<close>

text \<open>
  What \<^verbatim>\<open>fetch\<close> does with a request: its promise rejects, or a response arrives with a
  status and a body whose \<^verbatim>\<open>json()\<close> rejects or gives a parsed value.
\<close>

datatype 'j fetch_result = Rejects js_error | Responds nat "js_error + 'j"

text \<open>What the promise returned by \<^verbatim>\<open>makeAuthRequest\<close> resolves to.\<close>

datatype 'j resolved = NoValue | NullValue | Parsed 'j

definition msg_sending :: jstring where
  "msg_sending = [0x62F, 0x631, 0x20, 0x62D, 0x627, 0x644, 0x20, 0x627, 0x631, 0x633, 0x627,
                  0x644, 0x20, 0x62F, 0x631, 0x62E, 0x648, 0x627, 0x633, 0x62A, 0x2E, 0x2E, 0x2E]"

definition msg_relogin :: jstring where
  "msg_relogin = [0x644, 0x637, 0x641, 0x627, 0x64B, 0x20, 0x645, 0x62C, 0x62F, 0x62F, 0x627,
                  0x64B, 0x20, 0x648, 0x627, 0x631, 0x62F, 0x20, 0x634, 0x648, 0x6CC, 0x62F]"

definition msg_server_error :: jstring where
  "msg_server_error = [0x62E, 0x637, 0x627, 0x20, 0x62F, 0x631, 0x20, 0x627, 0x631, 0x62A, 0x628,
                       0x627, 0x637, 0x20, 0x628, 0x627, 0x20, 0x633, 0x631, 0x648, 0x631]"

definition template_string :: "jsval \<Rightarrow> jstring" where
  \<comment> \<open>\<^verbatim>\<open>`${v}`\<close>\<close>
  "template_string v = (case v of Null \<Rightarrow> js ''null'' | Undefined \<Rightarrow> js ''undefined'' | Str s \<Rightarrow> s)"

definition try_catch ::
  "('s \<Rightarrow> (js_error + 'a) \<times> 's) \<Rightarrow> (js_error \<Rightarrow> 's \<Rightarrow> (js_error + 'a) \<times> 's)
     \<Rightarrow> 's \<Rightarrow> (js_error + 'a) \<times> 's" where
  "try_catch body handler s =
     (case body s of
        (Inl e, s') \<Rightarrow> handler e s'
      | (Inr v, s') \<Rightarrow> (Inr v, s'))"

text \<open>
  \<^verbatim>\<open>makeAuthRequest(url, method, data)\<close>. The parameters \<open>stringify\<close> and \<open>fetch\<close> stand
  for \<^verbatim>\<open>JSON.stringify\<close> on the payload type, which raises on a payload it cannot
  serialise, and for the network; \<open>data = None\<close> is \<^verbatim>\<open>null\<close> (or any other falsy
  payload). The result is the settled promise, \<open>Inl\<close> for a rejection, with the browser
  state after the call. The \<^verbatim>\<open>await\<close> points are the call of \<open>fetch\<close> and the reading
  of the body; what else the page does while the function waits is not part of the model.
\<close>

definition request_options ::
  "('d \<Rightarrow> js_error + jstring) \<Rightarrow> jsval \<Rightarrow> jstring \<Rightarrow> jstring \<Rightarrow> 'd option
     \<Rightarrow> js_error + request" where
  \<comment> \<open>the \<^verbatim>\<open>headers\<close> and \<^verbatim>\<open>options\<close> objects, with the address \<^verbatim>\<open>`/api/v1${url}`\<close>;
     these statements stand before the \<^verbatim>\<open>try\<close> block\<close>
  "request_options stringify token url method data =
     (let headers = [(js ''Authorization'', js ''Bearer '' @ template_string token),
                     (js ''Content-Type'', js ''application/json'')];
          options = \<lparr>req_url = js ''/api/v1'' @ url, req_method = method,
                     req_headers = headers, req_body = None\<rparr>
      in case data of
           None \<Rightarrow> Inr options
         | Some d \<Rightarrow>
             if method = js ''POST'' \<or> method = js ''PUT'' then
               (case stringify d of
                  Inl e \<Rightarrow> Inl e
                | Inr json \<Rightarrow> Inr (options\<lparr>req_body := Some json\<rparr>))
             else Inr options)"

definition makeAuthRequest ::
  "('d \<Rightarrow> js_error + jstring) \<Rightarrow> (request \<Rightarrow> 'j fetch_result) \<Rightarrow> jstring \<Rightarrow> jstring
     \<Rightarrow> 'd option \<Rightarrow> browser \<Rightarrow> (js_error + 'j resolved) \<times> browser" where
  "makeAuthRequest stringify fetch url method data b =
     (let token = getToken (cookie b)
      in if falsy token then (Inr NoValue, b\<lparr>href := js ''/login''\<rparr>)
         else
           (case request_options stringify token url method data of
              Inl e \<Rightarrow> (Inl e, b)
            | Inr options \<Rightarrow>
                try_catch
                  (\<lambda>b. let b = showLoading msg_sending b;
                            b = b\<lparr>fetched := fetched b @ [options]\<rparr>
                        in case fetch options of
                             Rejects e \<Rightarrow> (Inl e, b)
                           | Responds status body \<Rightarrow>
                               let b = hideLoading b
                               in if status = 401 then
                                    (case showToast msg_relogin (js ''warning'') b of
                                       Inl e \<Rightarrow> (Inl e, b)
                                     | Inr b \<Rightarrow> (Inr NullValue, b\<lparr>href := js ''/login''\<rparr>))
                                  else (case body of
                                          Inl e \<Rightarrow> (Inl e, b)
                                        | Inr j \<Rightarrow> (Inr (Parsed j), b)))
                  (\<lambda>error b.
                     let b = hideLoading b
                     in case showToast msg_server_error (js ''error'') b of
                          Inl e \<Rightarrow> (Inl e, b)
                        | Inr b \<Rightarrow> (Inr NullValue, console_error error b))
                  b))"

definition toast0 :: toast_el where
  \<comment> \<open>a toast container with an empty body, not yet shown\<close>
  "toast0 = \<lparr>toast_text = Some [], toast_className = js ''toast'', toast_shown = 0\<rparr>"

definition browser0 :: browser where
  \<comment> \<open>a freshly loaded page without cookies, used in examples\<close>
  "browser0 = \<lparr>cookie = [], href = js ''/dashboard'', overlays = [], liveToast = Some toast0,
               bootstrap = True, object_prototype = Map.empty, console_errors = [],
               fetched = []\<rparr>"

section \<open>Reference definitions and example data\<close>


definition strip_prefix :: "jstring \<Rightarrow> jstring \<Rightarrow> jstring" where
  "strip_prefix p s = (if startsWith s p then drop (length p) s else s)"

definition reduced_digits :: "jstring \<Rightarrow> jstring" where
  \<comment> \<open>the digits of the input, without a leading 98 and then without a leading 0\<close>
  "reduced_digits phone =
     strip_prefix (js ''0'') (strip_prefix (js ''98'') (filter digit_09 phone))"

definition flag_if_blank :: "field \<Rightarrow> field" where
  \<comment> \<open>a required control gets the marker when blank and loses it otherwise\<close>
  "flag_if_blank f =
     (if \<not> required f then f
      else if trim (fvalue f) = [] then
        f\<lparr>classList := classList_add (js ''is-invalid'') (classList f)\<rparr>
      else f\<lparr>classList := classList_remove (js ''is-invalid'') (classList f)\<rparr>)"

definition form0 :: form where
  "form0 =
     [\<lparr>required = True, fvalue = js ''  '', classList = [js ''form-control'']\<rparr>,
      \<lparr>required = True, fvalue = js ''sara'',
       classList = [js ''form-control'', js ''is-invalid'']\<rparr>,
      \<lparr>required = False, fvalue = [], classList = []\<rparr>]"

definition document0 :: "jstring \<rightharpoonup> form" where
  "document0 = [js ''loginForm'' \<mapsto> form0]"

definition browser1 :: browser where
  \<comment> \<open>the page of a user whose token cookie is set\<close>
  "browser1 = browser0\<lparr>cookie := js ''access_token=tok''\<rparr>"

definition browser_without_toast :: browser where
  \<comment> \<open>the same page without the toast container\<close>
  "browser_without_toast = browser1\<lparr>liveToast := None\<rparr>"

definition browser_with_overlay :: browser where
  \<comment> \<open>the same page while an earlier loading overlay is still shown\<close>
  "browser_with_overlay = browser1\<lparr>overlays := [js ''old'']\<rparr>"

definition stringify_ok :: "unit \<Rightarrow> js_error + jstring" where
  "stringify_ok d = Inr (js ''{}'')"

definition stringify_cyclic :: "unit \<Rightarrow> js_error + jstring" where
  \<comment> \<open>\<^verbatim>\<open>JSON.stringify\<close> on a payload that refers to itself\<close>
  "stringify_cyclic d = Inl TypeError"

definition fetch_offline :: "request \<Rightarrow> nat fetch_result" where
  "fetch_offline r = Rejects NetworkError"

definition element0 :: text_el where
  \<comment> \<open>an empty display element, used in examples\<close>
  "element0 = \<lparr>textContent = [], style_color = []\<rparr>"

section \<open>Properties of the password strength checker\<close>

lemma class_cases: "lower_az c \<or> upper_AZ c \<or> digit_09 c \<or> not_alnum c"
  by (auto simp: not_alnum_def)

lemma class_disj:
  "lower_az c \<Longrightarrow> \<not> upper_AZ c" "lower_az c \<Longrightarrow> \<not> digit_09 c"
  "upper_AZ c \<Longrightarrow> \<not> lower_az c" "upper_AZ c \<Longrightarrow> \<not> digit_09 c"
  "digit_09 c \<Longrightarrow> \<not> lower_az c" "digit_09 c \<Longrightarrow> \<not> upper_AZ c"
  by (auto simp: lower_az_def upper_AZ_def digit_09_def cu_def word_le_nat_alt)

lemma regex_test_all_not: "\<forall>c\<in>set p. \<not> cls c \<Longrightarrow> \<not> regex_test cls p"
  by (simp add: regex_test_def list_ex_iff)

lemma strength_le_tests:
  "strength p \<le> of_bool (8 \<le> length p) + of_bool (12 \<le> length p)
     + of_bool (regex_test lower_az p) + of_bool (regex_test upper_AZ p)
     + of_bool (regex_test digit_09 p) + of_bool (regex_test not_alnum p)"
  by (cases "p = []") (simp_all add: strength_def Let_def)

lemma one_class_weak:
  assumes "length p < 8"
    and "(\<forall>c\<in>set p. lower_az c) \<or> (\<forall>c\<in>set p. upper_AZ c) \<or> (\<forall>c\<in>set p. digit_09 c) \<or> (\<forall>c\<in>set p. not_alnum c)"
  shows "strength p \<le> 1"
proof -
  from assms(2) consider
    (l) "\<forall>c\<in>set p. lower_az c" | (u) "\<forall>c\<in>set p. upper_AZ c" | (d) "\<forall>c\<in>set p. digit_09 c" | (o) "\<forall>c\<in>set p. not_alnum c"
    by blast
  then show ?thesis
  proof cases
    case l
    then have "\<not> regex_test upper_AZ p" "\<not> regex_test digit_09 p" "\<not> regex_test not_alnum p"
      by (auto intro!: regex_test_all_not simp: not_alnum_def dest: class_disj)
    with assms(1) strength_le_tests [of p] show ?thesis by (cases "regex_test lower_az p"; cases "regex_test upper_AZ p"; cases "regex_test digit_09 p"; cases "regex_test not_alnum p") simp_all
  next
    case u
    then have "\<not> regex_test lower_az p" "\<not> regex_test digit_09 p" "\<not> regex_test not_alnum p"
      by (auto intro!: regex_test_all_not simp: not_alnum_def dest: class_disj)
    with assms(1) strength_le_tests [of p] show ?thesis by (cases "regex_test lower_az p"; cases "regex_test upper_AZ p"; cases "regex_test digit_09 p"; cases "regex_test not_alnum p") simp_all
  next
    case d
    then have "\<not> regex_test lower_az p" "\<not> regex_test upper_AZ p" "\<not> regex_test not_alnum p"
      by (auto intro!: regex_test_all_not simp: not_alnum_def dest: class_disj)
    with assms(1) strength_le_tests [of p] show ?thesis by (cases "regex_test lower_az p"; cases "regex_test upper_AZ p"; cases "regex_test digit_09 p"; cases "regex_test not_alnum p") simp_all
  next
    case o
    then have "\<not> regex_test lower_az p" "\<not> regex_test upper_AZ p" "\<not> regex_test digit_09 p"
      by (auto intro!: regex_test_all_not simp: not_alnum_def)
    with assms(1) strength_le_tests [of p] show ?thesis by (cases "regex_test lower_az p"; cases "regex_test upper_AZ p"; cases "regex_test digit_09 p"; cases "regex_test not_alnum p") simp_all
  qed
qed

lemma full_variety_six:
  assumes "12 \<le> length p" "regex_test lower_az p" "regex_test upper_AZ p" "regex_test digit_09 p" "regex_test not_alnum p"
  shows "strength p = 6"
proof -
  from assms(1) have "p \<noteq> []" by auto
  with assms show ?thesis by (simp add: strength_def)
qed

lemmas class_defs =
  lower_az_def upper_AZ_def digit_09_def not_alnum_def cu_def js_def regex_test_def

text \<open>
  Claim C1. For every password, the score of \<^verbatim>\<open>checkPasswordStrength\<close> is the number of
  these six tests that hold: length at least 8, length at least 12, a lowercase letter, an
  uppercase letter, a digit, a character that is neither letter nor digit. It never
  exceeds 6.
\<close>

theorem strength_formula:
  "strength p =
     of_bool (8 \<le> length p) + of_bool (12 \<le> length p)
     + of_bool (regex_test lower_az p) + of_bool (regex_test upper_AZ p)
     + of_bool (regex_test digit_09 p) + of_bool (regex_test not_alnum p)
   \<and> strength p \<le> 6"
  by (cases "p = []") (simp_all add: strength_def regex_test_def Let_def)

theorem strength_formula_witness:
  "strength (js ''Tr0ub4dor&3xyz'') = 6 \<and> strength (js ''abc'') = 1 \<and> strength [] = 0"
  using strength_formula [of "js ''Tr0ub4dor&3xyz''"] strength_formula [of "js ''abc''"]
    strength_formula [of "[]"]
  by (simp add: class_defs)

text \<open>
  Claim C2. For every non-empty password the score selects the tier by ascending
  thresholds: at most 2 gives the weak label with 33% fill, at most 4 the medium label
  with 66% fill, anything above the strong label with 100% fill, each with its colour on
  the fill and the label. A password of length at least 12 with a lowercase letter, an
  uppercase letter, a digit and a symbol scores 6 and is strong; a password shorter than 8
  whose characters all belong to one class is weak.
\<close>

theorem checkPasswordStrength_tiers:
  assumes "password \<noteq> []"
  shows
    "(strength password \<le> 2 \<longrightarrow>
        checkPasswordStrength password m =
          m\<lparr>fill_width := js ''33%'', fill_backgroundColor := js ''#dc3545'',
            text_textContent := label_weak, text_color := js ''#dc3545''\<rparr>)
     \<and> (2 < strength password \<and> strength password \<le> 4 \<longrightarrow>
        checkPasswordStrength password m =
          m\<lparr>fill_width := js ''66%'', fill_backgroundColor := js ''#ffc107'',
            text_textContent := label_medium, text_color := js ''#ffc107''\<rparr>)
     \<and> (4 < strength password \<longrightarrow>
        checkPasswordStrength password m =
          m\<lparr>fill_width := js ''100%'', fill_backgroundColor := js ''#198754'',
            text_textContent := label_strong, text_color := js ''#198754''\<rparr>)
     \<and> (12 \<le> length password \<and> regex_test lower_az password \<and> regex_test upper_AZ password
          \<and> regex_test digit_09 password \<and> regex_test not_alnum password \<longrightarrow>
        strength password = 6
        \<and> checkPasswordStrength password m =
          m\<lparr>fill_width := js ''100%'', fill_backgroundColor := js ''#198754'',
            text_textContent := label_strong, text_color := js ''#198754''\<rparr>)
     \<and> (length password < 8
          \<and> ((\<forall>c\<in>set password. lower_az c) \<or> (\<forall>c\<in>set password. upper_AZ c)
               \<or> (\<forall>c\<in>set password. digit_09 c) \<or> (\<forall>c\<in>set password. not_alnum c)) \<longrightarrow>
        checkPasswordStrength password m =
          m\<lparr>fill_width := js ''33%'', fill_backgroundColor := js ''#dc3545'',
            text_textContent := label_weak, text_color := js ''#dc3545''\<rparr>)"
proof -
  have weak: "checkPasswordStrength password m =
          m\<lparr>fill_width := js ''33%'', fill_backgroundColor := js ''#dc3545'',
            text_textContent := label_weak, text_color := js ''#dc3545''\<rparr>"
    if "strength password \<le> 2"
    using that assms by (simp add: checkPasswordStrength_def)
  have medium: "checkPasswordStrength password m =
          m\<lparr>fill_width := js ''66%'', fill_backgroundColor := js ''#ffc107'',
            text_textContent := label_medium, text_color := js ''#ffc107''\<rparr>"
    if "2 < strength password" "strength password \<le> 4"
    using that assms by (simp add: checkPasswordStrength_def)
  have strong: "checkPasswordStrength password m =
          m\<lparr>fill_width := js ''100%'', fill_backgroundColor := js ''#198754'',
            text_textContent := label_strong, text_color := js ''#198754''\<rparr>"
    if "4 < strength password"
    using that assms by (simp add: checkPasswordStrength_def)
  have six: "strength password = 6"
    if "12 \<le> length password" "regex_test lower_az password" "regex_test upper_AZ password"
       "regex_test digit_09 password" "regex_test not_alnum password"
    using that by (rule full_variety_six)
  have one: "strength password \<le> 2"
    if "length password < 8"
       "(\<forall>c\<in>set password. lower_az c) \<or> (\<forall>c\<in>set password. upper_AZ c)
        \<or> (\<forall>c\<in>set password. digit_09 c) \<or> (\<forall>c\<in>set password. not_alnum c)"
    using one_class_weak [OF that] by simp
  show ?thesis
  proof (intro conjI impI)
    assume "strength password \<le> 2"
    then show "checkPasswordStrength password m =
          m\<lparr>fill_width := js ''33%'', fill_backgroundColor := js ''#dc3545'',
            text_textContent := label_weak, text_color := js ''#dc3545''\<rparr>"
      by (rule weak)
  next
    assume "2 < strength password \<and> strength password \<le> 4"
    then show "checkPasswordStrength password m =
          m\<lparr>fill_width := js ''66%'', fill_backgroundColor := js ''#ffc107'',
            text_textContent := label_medium, text_color := js ''#ffc107''\<rparr>"
      using medium by blast
  next
    assume "4 < strength password"
    then show "checkPasswordStrength password m =
          m\<lparr>fill_width := js ''100%'', fill_backgroundColor := js ''#198754'',
            text_textContent := label_strong, text_color := js ''#198754''\<rparr>"
      by (rule strong)
  next
    assume h: "12 \<le> length password \<and> regex_test lower_az password \<and> regex_test upper_AZ password
          \<and> regex_test digit_09 password \<and> regex_test not_alnum password"
    then show s6: "strength password = 6" using six by blast
    then have "4 < strength password" by simp
    then show "checkPasswordStrength password m =
          m\<lparr>fill_width := js ''100%'', fill_backgroundColor := js ''#198754'',
            text_textContent := label_strong, text_color := js ''#198754''\<rparr>"
      by (rule strong)
  next
    assume "length password < 8
          \<and> ((\<forall>c\<in>set password. lower_az c) \<or> (\<forall>c\<in>set password. upper_AZ c)
               \<or> (\<forall>c\<in>set password. digit_09 c) \<or> (\<forall>c\<in>set password. not_alnum c))"
    then have "strength password \<le> 2" using one by blast
    then show "checkPasswordStrength password m =
          m\<lparr>fill_width := js ''33%'', fill_backgroundColor := js ''#dc3545'',
            text_textContent := label_weak, text_color := js ''#dc3545''\<rparr>"
      by (rule weak)
  qed
qed

theorem checkPasswordStrength_tiers_witness:
  "checkPasswordStrength (js ''abc'') meter0 =
     meter0\<lparr>fill_width := js ''33%'', fill_backgroundColor := js ''#dc3545'',
       text_textContent := label_weak, text_color := js ''#dc3545''\<rparr>
   \<and> checkPasswordStrength (js ''abcdefgh1'') meter0 =
     meter0\<lparr>fill_width := js ''66%'', fill_backgroundColor := js ''#ffc107'',
       text_textContent := label_medium, text_color := js ''#ffc107''\<rparr>
   \<and> strength (js ''Tr0ub4dor&3xyz'') = 6
   \<and> checkPasswordStrength (js ''Tr0ub4dor&3xyz'') meter0 =
     meter0\<lparr>fill_width := js ''100%'', fill_backgroundColor := js ''#198754'',
       text_textContent := label_strong, text_color := js ''#198754''\<rparr>"
proof -
  have a: "js ''abc'' \<noteq> []" "length (js ''abc'') < 8" "\<forall>c\<in>set (js ''abc''). lower_az c"
    by (simp_all add: class_defs)
  have b: "js ''abcdefgh1'' \<noteq> []" "2 < strength (js ''abcdefgh1'')" "strength (js ''abcdefgh1'') \<le> 4"
    by (simp_all add: strength_def class_defs)
  have c: "js ''Tr0ub4dor&3xyz'' \<noteq> []" "12 \<le> length (js ''Tr0ub4dor&3xyz'')"
    "regex_test lower_az (js ''Tr0ub4dor&3xyz'')" "regex_test upper_AZ (js ''Tr0ub4dor&3xyz'')"
    "regex_test digit_09 (js ''Tr0ub4dor&3xyz'')" "regex_test not_alnum (js ''Tr0ub4dor&3xyz'')"
    by (simp_all add: class_defs)
  from checkPasswordStrength_tiers [OF a(1), of meter0]
       checkPasswordStrength_tiers [OF b(1), of meter0]
       checkPasswordStrength_tiers [OF c(1), of meter0]
  show ?thesis using a b c by simp
qed

section \<open>Properties of the countdown\<close>

lemma digits_small: "n < 10 \<Longrightarrow> digits n = [cu CHR ''0'' + of_nat n]"
  by (simp add: digits.simps [of n])

lemma render_1: "render (Num 1) = js ''0:01''"
  by (simp add: render_def floor_div_def js_rem_def num_toString_def padStart_def js_def digits_small cu_def)

lemma render_0: "render (Num 0) = js ''0:00''"
  by (simp add: render_def floor_div_def js_rem_def num_toString_def padStart_def js_def digits_small cu_def)

lemma render_upto_5:
  "render (Num 5) = js ''0:05''" "render (Num 4) = js ''0:04''" "render (Num 3) = js ''0:03''"
  "render (Num 2) = js ''0:02''" 
  by (simp_all add: render_def floor_div_def js_rem_def num_toString_def padStart_def js_def digits_small cu_def)

lemma fire_running:
  assumes "timer s" "display s = Some d" "\<not> le_zero (remaining s)"
  shows "fire s = ([render (remaining s)],
                   s\<lparr>display := Some (d\<lparr>textContent := render (remaining s)\<rparr>),
                     remaining := decrement (remaining s)\<rparr>)"
  using assms by (simp add: fire_def tick_def Let_def)

lemma fire_expiring:
  assumes "timer s" "display s = Some d" "le_zero (remaining s)"
  shows "fire s = ([render (remaining s), label_expired],
                   s\<lparr>timer := False,
                     display := Some (d\<lparr>textContent := label_expired, style_color := js ''#dc3545''\<rparr>),
                     resendBtn := map_option (\<lambda>b. b\<lparr>disabled := False, btn_textContent := label_resend\<rparr>) (resendBtn s),
                     remaining := decrement (remaining s)\<rparr>)"
  using assms by (simp add: fire_def tick_def Let_def)

lemma fire_stopped: "\<not> timer s \<Longrightarrow> fire s = ([], s)"
  by (simp add: fire_def)

lemma ticks_stopped: "\<not> timer s \<Longrightarrow> ticks k s = s"
  by (induction k) (simp_all add: fire_stopped)

lemma writes_stopped: "\<not> timer s \<Longrightarrow> writes k s = replicate k []"
  by (induction k) (simp_all add: fire_stopped)

lemma ticks_add: "ticks (a + b) s = ticks b (ticks a s)"
  by (induction a arbitrary: s) simp_all

lemma ticks_Suc_end: "ticks (Suc k) s = snd (fire (ticks k s))"
  using ticks_add [of k 1 s] by simp

lemma writes_add: "writes (a + b) s = writes a s @ writes b (ticks a s)"
  by (induction a arbitrary: s) simp_all

lemma ticks_running:
  "k \<le> n \<Longrightarrow>
   ticks k (startCountdown (Num (int n)) (Some d) btn) =
     \<lparr>display = Some (if k = 0 then d else d\<lparr>textContent := render (Num (int n - int k + 1))\<rparr>),
      remaining = Num (int n - int k), timer = True, resendBtn = btn\<rparr>"
proof (induction k)
  case 0
  show ?case by (simp add: startCountdown_def)
next
  case (Suc k)
  then have "k \<le> n" "int k < int n" by simp_all
  with Suc.IH show ?case
    by (simp only: ticks_Suc_end) (simp add: fire_running le_zero_def decrement_def)
qed

lemma fire_first_write:
  assumes "timer s" "display s = Some e"
  shows "(\<exists>rest. fst (fire s) = render (remaining s) # rest)
         \<and> remaining (snd (fire s)) = decrement (remaining s)"
  using assms by (cases "le_zero (remaining s)") (simp_all add: fire_running fire_expiring)

lemma ticks_at_zero:
  "ticks n (startCountdown (Num (int n)) (Some d) btn) =
     \<lparr>display = Some (if n = 0 then d else d\<lparr>textContent := js ''0:01''\<rparr>),
      remaining = Num 0, timer = True, resendBtn = btn\<rparr>"
  using ticks_running [of n n d btn] by (simp add: render_1)

lemma fire_at_zero:
  "fire \<lparr>display = Some e, remaining = Num 0, timer = True, resendBtn = btn\<rparr> =
     ([js ''0:00'', label_expired],
      \<lparr>display = Some (e\<lparr>textContent := label_expired, style_color := js ''#dc3545''\<rparr>),
       remaining = Num (- 1), timer = False,
       resendBtn = map_option (\<lambda>b. b\<lparr>disabled := False, btn_textContent := label_resend\<rparr>) btn\<rparr>)"
  by (simp add: fire_expiring [where d = e] le_zero_def decrement_def render_0)

lemma ticks_beyond_expiry:
  "ticks (Suc n + k) (startCountdown (Num (int n)) (Some d) btn) =
     \<lparr>display = Some (d\<lparr>textContent := label_expired, style_color := js ''#dc3545''\<rparr>),
      remaining = Num (- 1), timer = False,
      resendBtn = map_option (\<lambda>b. b\<lparr>disabled := False, btn_textContent := label_resend\<rparr>) btn\<rparr>"
proof -
  have "ticks (Suc n) (startCountdown (Num (int n)) (Some d) btn) =
     \<lparr>display = Some (d\<lparr>textContent := label_expired, style_color := js ''#dc3545''\<rparr>),
      remaining = Num (- 1), timer = False,
      resendBtn = map_option (\<lambda>b. b\<lparr>disabled := False, btn_textContent := label_resend\<rparr>) btn\<rparr>"
    by (simp only: ticks_Suc_end ticks_at_zero fire_at_zero) simp
  then show ?thesis
    by (simp only: ticks_add [of "Suc n" k]) (simp add: ticks_stopped)
qed

lemma writes_5:
  "writes 6 (startCountdown (Num 5) (Some d) btn) =
     [[js ''0:05''], [js ''0:04''], [js ''0:03''], [js ''0:02''], [js ''0:01''],
      [js ''0:00'', label_expired]]"
  by (simp add: eval_nat_numeral startCountdown_def fire_def tick_def Let_def le_zero_def
        decrement_def render_0 render_1 render_upto_5)

lemma visible_5:
  "map (\<lambda>k. map_option textContent (display (ticks k (startCountdown (Num 5) (Some d) btn))))
       [1, 2, 3, 4, 5]
     = [Some (js ''0:05''), Some (js ''0:04''), Some (js ''0:03''), Some (js ''0:02''),
        Some (js ''0:01'')]"
  by (simp add: eval_nat_numeral startCountdown_def fire_def tick_def Let_def le_zero_def
        decrement_def render_0 render_1 render_upto_5)

text \<open>
  Claim C3, as the script has it. Every tick writes the current value of the counter to
  the display before it decrements the counter. So the counter of a countdown from \<open>n\<close>
  is 0 after \<open>n\<close> ticks, one tick before expiry, while the interval is still registered
  and the display (for \<open>n > 0\<close>) shows 0:01. The next tick writes 0:00 and, in the same
  tick, replaces it by the expired label and cancels the interval.
\<close>

theorem countdown_render_before_decrement:
  "(\<forall>s e. timer s \<and> display s = Some e \<longrightarrow>
      (\<exists>rest. fst (fire s) = render (remaining s) # rest)
      \<and> remaining (snd (fire s)) = decrement (remaining s))
   \<and> remaining (ticks n (startCountdown (Num (int n)) (Some d) btn)) = Num 0
   \<and> timer (ticks n (startCountdown (Num (int n)) (Some d) btn))
   \<and> (0 < n \<longrightarrow>
        map_option textContent (display (ticks n (startCountdown (Num (int n)) (Some d) btn)))
          = Some (js ''0:01''))
   \<and> fst (fire (ticks n (startCountdown (Num (int n)) (Some d) btn))) = [js ''0:00'', label_expired]
   \<and> \<not> timer (ticks (Suc n) (startCountdown (Num (int n)) (Some d) btn))
   \<and> map_option textContent (display (ticks (Suc n) (startCountdown (Num (int n)) (Some d) btn)))
        = Some label_expired"
proof -
  have first: "\<forall>s e. timer s \<and> display s = Some e \<longrightarrow>
      (\<exists>rest. fst (fire s) = render (remaining s) # rest)
      \<and> remaining (snd (fire s)) = decrement (remaining s)"
    using fire_first_write by blast
  have rest: "remaining (ticks n (startCountdown (Num (int n)) (Some d) btn)) = Num 0
   \<and> timer (ticks n (startCountdown (Num (int n)) (Some d) btn))
   \<and> (0 < n \<longrightarrow>
        map_option textContent (display (ticks n (startCountdown (Num (int n)) (Some d) btn)))
          = Some (js ''0:01''))
   \<and> fst (fire (ticks n (startCountdown (Num (int n)) (Some d) btn))) = [js ''0:00'', label_expired]
   \<and> \<not> timer (ticks (Suc n) (startCountdown (Num (int n)) (Some d) btn))
   \<and> map_option textContent (display (ticks (Suc n) (startCountdown (Num (int n)) (Some d) btn)))
        = Some label_expired"
    by (simp only: ticks_Suc_end ticks_at_zero fire_at_zero) simp
  from first rest show ?thesis by (rule conjI)
qed

theorem countdown_render_before_decrement_witness:
  "timer (startCountdown (Num 1) (Some element0) None)
   \<and> display (startCountdown (Num 1) (Some element0) None) = Some element0
   \<and> fst (fire (startCountdown (Num 1) (Some element0) None)) = [js ''0:01'']
   \<and> remaining (snd (fire (startCountdown (Num 1) (Some element0) None))) = Num 0
   \<and> timer (ticks 1 (startCountdown (Num 1) (Some element0) None))
   \<and> fst (fire (ticks 1 (startCountdown (Num 1) (Some element0) None))) = [js ''0:00'', label_expired]
   \<and> \<not> timer (ticks 2 (startCountdown (Num 1) (Some element0) None))"
proof -
  have h: "timer (startCountdown (Num 1) (Some element0) None)
           \<and> display (startCountdown (Num 1) (Some element0) None) = Some element0"
    by (simp add: startCountdown_def)
  have r: "\<not> le_zero (remaining (startCountdown (Num 1) (Some element0) None))"
    by (simp add: startCountdown_def le_zero_def)
  have w: "fst (fire (startCountdown (Num 1) (Some element0) None)) = [js ''0:01'']"
    using h r by (simp add: fire_running [where d = element0] startCountdown_def render_1)
  from countdown_render_before_decrement [of 1 element0 None] h w show ?thesis
    by (simp add: startCountdown_def decrement_def numeral_2_eq_2)
qed

text \<open>
  Claim C3 as worded puts the expired label one tick after the tick that displays 0:00.
  In a countdown from 1 the second tick writes both 0:00 and the expired label and
  cancels the interval; the third period writes nothing.
\<close>

theorem countdown_zero_and_expiry_same_tick:
  "writes 3 (startCountdown (Num 1) (Some element0) None)
     = [[js ''0:01''], [js ''0:00'', label_expired], []]
   \<and> timer (ticks 1 (startCountdown (Num 1) (Some element0) None))
   \<and> \<not> timer (ticks 2 (startCountdown (Num 1) (Some element0) None))"
  by (simp add: eval_nat_numeral startCountdown_def fire_def tick_def Let_def le_zero_def
        decrement_def render_0 render_1)

text \<open>
  Claim C4. A countdown from 5 writes 0:05, 0:04, 0:03, 0:02, 0:01 in its first five
  ticks, one value per tick, which is also what the display shows after each of them. The
  sixth tick writes 0:00 and then the expired label and cancels the interval. From then
  on no period writes anything and the display keeps the expired label in the alert
  colour; a resend button, if the page has one, is enabled with its new text.
\<close>

theorem countdown_from_5:
  "writes 6 (startCountdown (Num 5) (Some d) btn) =
     [[js ''0:05''], [js ''0:04''], [js ''0:03''], [js ''0:02''], [js ''0:01''],
      [js ''0:00'', label_expired]]
   \<and> map (\<lambda>k. map_option textContent (display (ticks k (startCountdown (Num 5) (Some d) btn))))
         [1, 2, 3, 4, 5]
       = [Some (js ''0:05''), Some (js ''0:04''), Some (js ''0:03''), Some (js ''0:02''),
          Some (js ''0:01'')]
   \<and> (\<forall>k. \<not> timer (ticks (6 + k) (startCountdown (Num 5) (Some d) btn))
          \<and> writes k (ticks 6 (startCountdown (Num 5) (Some d) btn)) = replicate k []
          \<and> display (ticks (6 + k) (startCountdown (Num 5) (Some d) btn))
              = Some (d\<lparr>textContent := label_expired, style_color := js ''#dc3545''\<rparr>)
          \<and> resendBtn (ticks (6 + k) (startCountdown (Num 5) (Some d) btn))
              = map_option (\<lambda>b. b\<lparr>disabled := False, btn_textContent := label_resend\<rparr>) btn)"
proof -
  have later: "ticks (6 + k) (startCountdown (Num 5) (Some d) btn) =
     \<lparr>display = Some (d\<lparr>textContent := label_expired, style_color := js ''#dc3545''\<rparr>),
      remaining = Num (- 1), timer = False,
      resendBtn = map_option (\<lambda>b. b\<lparr>disabled := False, btn_textContent := label_resend\<rparr>) btn\<rparr>"
    for k
    using ticks_beyond_expiry [of 5 k d btn] by simp
  have quiet: "writes k (ticks 6 (startCountdown (Num 5) (Some d) btn)) = replicate k []" for k
    using later [of 0] by (simp add: writes_stopped)
  show ?thesis
    using writes_5 [of d btn] visible_5 [of d btn] by (simp add: later quiet)
qed

theorem countdown_from_5_witness:
  "writes 8 (startCountdown (Num 5) (Some element0) None) =
     [[js ''0:05''], [js ''0:04''], [js ''0:03''], [js ''0:02''], [js ''0:01''],
      [js ''0:00'', label_expired], [], []]
   \<and> map_option textContent (display (ticks 8 (startCountdown (Num 5) (Some element0) None)))
       = Some label_expired"
proof -
  have split: "writes 8 s = writes 6 s @ writes 2 (ticks 6 s)" for s
    using writes_add [of 6 2 s] by simp
  from countdown_from_5 [of element0 None] show ?thesis
    apply (simp only: split)
    apply (elim conjE)
    apply (frule spec [where x = 2])
    apply (simp add: numeral_2_eq_2)
    done
qed

section \<open>Properties of form validation\<close>

lemma forEach_required_map:
  "forEach_required form v =
     (map flag_if_blank form, v \<and> (\<forall>f\<in>set form. required f \<longrightarrow> trim (fvalue f) \<noteq> []))"
  by (induction form arbitrary: v) (auto simp: check_input_def flag_if_blank_def)

lemma classList_add_mem: "tok \<in> set (classList_add tok cl)"
  by (simp add: classList_add_def)

lemma classList_remove_mem: "tok \<notin> set (classList_remove tok cl)"
  by (simp add: classList_remove_def)

lemma trim_blank: "trim (js ''  '') = []"
  by (simp add: trim_def is_ws_def js_def cu_def)

lemma trim_sara: "trim (js ''sara'') = js ''sara''"
  by (simp add: trim_def is_ws_def js_def cu_def)

text \<open>
  Claim C8. On a form that exists, \<^verbatim>\<open>validateForm\<close> returns true exactly when every
  required control has non-blank trimmed content. Every blank required control ends with
  the invalid marker, every other required control without it, and controls that are not
  required are left as they were. On a form with one blank and one filled required
  control it returns false and only the blank one carries the marker.
\<close>

theorem validateForm_all_required_filled:
  assumes "document formId = Some form"
  shows "validateForm document formId =
           Inr ((\<forall>f\<in>set form. required f \<longrightarrow> trim (fvalue f) \<noteq> []),
                document(formId \<mapsto> map flag_if_blank form))
         \<and> (\<forall>f\<in>set form. required f \<longrightarrow>
               (js ''is-invalid'' \<in> set (classList (flag_if_blank f)) \<longleftrightarrow> trim (fvalue f) = []))
         \<and> (\<forall>f\<in>set form. \<not> required f \<longrightarrow> flag_if_blank f = f)"
proof -
  have "validateForm document formId =
           Inr ((\<forall>f\<in>set form. required f \<longrightarrow> trim (fvalue f) \<noteq> []),
                document(formId \<mapsto> map flag_if_blank form))"
    using assms by (simp add: validateForm_def forEach_required_map)
  moreover have "\<forall>f\<in>set form. required f \<longrightarrow>
               (js ''is-invalid'' \<in> set (classList (flag_if_blank f)) \<longleftrightarrow> trim (fvalue f) = [])"
    by (simp add: flag_if_blank_def classList_add_mem classList_remove_mem)
  moreover have "\<forall>f\<in>set form. \<not> required f \<longrightarrow> flag_if_blank f = f"
    by (simp add: flag_if_blank_def)
  ultimately show ?thesis by blast
qed

theorem validateForm_all_required_filled_witness:
  "document0 (js ''loginForm'') = Some form0
   \<and> validateForm document0 (js ''loginForm'') =
       Inr (False,
            document0(js ''loginForm'' \<mapsto>
              [\<lparr>required = True, fvalue = js ''  '',
                classList = [js ''form-control'', js ''is-invalid'']\<rparr>,
               \<lparr>required = True, fvalue = js ''sara'', classList = [js ''form-control'']\<rparr>,
               \<lparr>required = False, fvalue = [], classList = []\<rparr>]))"
proof -
  have h: "document0 (js ''loginForm'') = Some form0"
    by (simp add: document0_def)
  have neq: "js ''form-control'' \<noteq> js ''is-invalid''" "js ''sara'' \<noteq> []"
    by (simp_all add: js_def cu_def)
  from validateForm_all_required_filled [of document0 "js ''loginForm''" form0] h show ?thesis
    by (simp add: form0_def flag_if_blank_def trim_blank trim_sara neq classList_add_def
          classList_remove_def)
qed

section \<open>Properties of phone number formatting\<close>

lemma formatPhoneNumber_reduced:
  "formatPhoneNumber phone =
     (if length (reduced_digits phone) = 10 then
        js ''0'' @ substring 0 3 (reduced_digits phone) @ js '' ''
          @ substring 3 6 (reduced_digits phone) @ js '' ''
          @ substring 6 10 (reduced_digits phone)
      else reduced_digits phone)"
proof -
  have len: "length (js ''98'') = 2" "length (js ''0'') = 1"
    by (simp_all add: js_def)
  show ?thesis
    by (simp only: formatPhoneNumber_def reduced_digits_def strip_prefix_def Let_def len)
qed

text \<open>
  Claim C7, as the script has it. Both 989123456789 and 09123456789 are formatted as
  0912 345 6789. For every input whose digits, after stripping non-digits, then a leading
  98 and then a leading 0, do not number exactly 10, the result is that reduced digit
  string, without grouping.
\<close>

theorem formatPhoneNumber_examples_and_fallback:
  "formatPhoneNumber (js ''989123456789'') = js ''0912 345 6789''
   \<and> formatPhoneNumber (js ''09123456789'') = js ''0912 345 6789''
   \<and> (\<forall>phone. length (reduced_digits phone) \<noteq> 10 \<longrightarrow>
         formatPhoneNumber phone = reduced_digits phone)"
proof -
  have a: "formatPhoneNumber (js ''989123456789'') = js ''0912 345 6789''"
    by (simp add: formatPhoneNumber_def startsWith_def substring_def class_defs)
  have b: "formatPhoneNumber (js ''09123456789'') = js ''0912 345 6789''"
    by (simp add: formatPhoneNumber_def startsWith_def substring_def class_defs)
  have c: "\<forall>phone. length (reduced_digits phone) \<noteq> 10 \<longrightarrow>
         formatPhoneNumber phone = reduced_digits phone"
    by (simp add: formatPhoneNumber_reduced)
  from a b c show ?thesis by blast
qed

theorem formatPhoneNumber_examples_and_fallback_witness:
  "length (reduced_digits (js ''0912'')) \<noteq> 10
   \<and> formatPhoneNumber (js ''0912'') = js ''912''"
proof -
  have r: "reduced_digits (js ''0912'') = js ''912''"
    by (simp add: reduced_digits_def strip_prefix_def startsWith_def class_defs)
  then have h: "length (reduced_digits (js ''0912'')) \<noteq> 10"
    by (simp add: js_def)
  from formatPhoneNumber_examples_and_fallback have
    "length (reduced_digits (js ''0912'')) \<noteq> 10 \<longrightarrow>
       formatPhoneNumber (js ''0912'') = reduced_digits (js ''0912'')"
    by blast
  with h r show ?thesis by simp
qed

text \<open>
  Claim C7 as worded returns the input itself in that case. The input 0912 reduces to
  three digits and comes back as 912.
\<close>

theorem formatPhoneNumber_does_not_return_input:
  "length (reduced_digits (js ''0912'')) \<noteq> 10
   \<and> formatPhoneNumber (js ''0912'') \<noteq> js ''0912''"
  by (simp add: formatPhoneNumber_def reduced_digits_def strip_prefix_def startsWith_def
        substring_def class_defs)

section \<open>Properties of the countdown seed\<close>

lemma digits_300: "digits 300 = js ''300''"
  by (simp add: digits.simps [of 300] digits.simps [of 30] digits.simps [of 3] js_def cu_def)

lemma parseInt_300: "parseInt (Inr 300) = Num 300"
  by (simp add: parseInt_def num_toString_def digits_300)
     (simp add: parseInt_string_def is_ws_def radix_digit_def digit_of_def radix_value_def
        class_defs)

lemma parseInt_abc: "parseInt_string (js ''abc'') = NaN"
  by (simp add: parseInt_string_def is_ws_def radix_digit_def digit_of_def class_defs)

text \<open>
  A countdown seeded with NaN never expires: every tick writes NaN:NaN and the interval
  stays registered.
\<close>

lemma render_NaN: "render NaN = js ''NaN:NaN''"
  by (simp add: render_def floor_div_def js_rem_def num_toString_def padStart_def js_def)

lemma countdown_from_NaN:
  "ticks k (startCountdown NaN (Some d) btn) =
     \<lparr>display = Some (if k = 0 then d else d\<lparr>textContent := js ''NaN:NaN''\<rparr>),
      remaining = NaN, timer = True, resendBtn = btn\<rparr>"
proof (induction k)
  case 0
  show ?case by (simp add: startCountdown_def)
next
  case (Suc k)
  then show ?case
    by (simp only: ticks_Suc_end) (simp add: fire_running le_zero_def decrement_def render_NaN)
qed

text \<open>
  Claim C9, as the script has it. The seed is 300 when the \<^verbatim>\<open>seconds\<close> attribute is
  absent or empty. A non-empty attribute is handed to \<^verbatim>\<open>parseInt\<close> as it is, so a
  non-empty attribute that cannot be parsed seeds the countdown with NaN.
\<close>

theorem timer_seed_default:
  "timer_seed None = Num 300
   \<and> timer_seed (Some []) = Num 300
   \<and> (\<forall>s. s \<noteq> [] \<longrightarrow> timer_seed (Some s) = parseInt_string s)
   \<and> (\<forall>s. s \<noteq> [] \<and> parseInt_string s = NaN \<longrightarrow> timer_seed (Some s) = NaN)"
  by (simp add: timer_seed_def or_300_def parseInt_300) (simp add: parseInt_def)

theorem timer_seed_default_witness:
  "js ''abc'' \<noteq> [] \<and> parseInt_string (js ''abc'') = NaN \<and> timer_seed (Some (js ''abc'')) = NaN
   \<and> js ''120'' \<noteq> [] \<and> timer_seed (Some (js ''120'')) = Num 120"
proof -
  have h: "js ''abc'' \<noteq> []" "js ''120'' \<noteq> []"
    by (simp_all add: js_def)
  have p: "parseInt_string (js ''120'') = Num 120"
    by (simp add: parseInt_string_def is_ws_def radix_digit_def digit_of_def radix_value_def
          class_defs)
  from timer_seed_default have
    "js ''abc'' \<noteq> [] \<and> parseInt_string (js ''abc'') = NaN \<longrightarrow> timer_seed (Some (js ''abc'')) = NaN"
    "js ''120'' \<noteq> [] \<longrightarrow> timer_seed (Some (js ''120'')) = parseInt_string (js ''120'')"
    by blast+
  with h p parseInt_abc show ?thesis by simp
qed

text \<open>
  Claim C9 as worded gives 300 for an unparseable attribute as well. The attribute value
  abc is unparseable and the seed is not 300.
\<close>

theorem timer_seed_unparseable_is_NaN:
  "parseInt_string (js ''abc'') = NaN \<and> timer_seed (Some (js ''abc'')) \<noteq> Num 300"
  by (simp add: timer_seed_def or_300_def parseInt_def parseInt_abc) (simp add: js_def)

section \<open>Properties of the token cookie\<close>











section \<open>Properties of authenticated requests\<close>

lemma getToken_empty: "getToken [] = Null"
  by (simp add: getToken_def trim_def js_def)

lemma browser1_token: "\<not> falsy (getToken (cookie browser1))"
  by (simp add: browser1_def browser0_def getToken_def trim_def is_ws_def falsy_def js_def cu_def)

lemma hideLoading_tl: "hideLoading b = b\<lparr>overlays := tl (overlays b)\<rparr>"
  by (cases "overlays b") (simp_all add: hideLoading_def)

lemma toast_class_own:
  "toast_class b (js ''warning'') = js ''alert-warning''"
  "toast_class b (js ''error'') = js ''alert-danger''"
  by (simp_all add: toast_class_def toast_types_def js_def cu_def)

lemma toast_class_names:
  "js ''toast '' @ js ''alert-warning'' = js ''toast alert-warning''"
  "js ''toast '' @ js ''alert-danger'' = js ''toast alert-danger''"
  by (simp_all add: js_def)

lemma showToast_working:
  assumes "liveToast b = Some toastEl" "toast_text toastEl = Some old" "bootstrap b"
  shows "showToast message type b =
           Inr (b\<lparr>liveToast := Some (toastEl
                  \<lparr>toast_text := Some message,
                   toast_className := js ''toast '' @ toast_class b type,
                   toast_shown := Suc (toast_shown toastEl)\<rparr>)\<rparr>)"
  using assms by (simp add: showToast_def)

lemma showToast_without_container: "liveToast b = None \<Longrightarrow> showToast message type b = Inl TypeError"
  by (simp add: showToast_def)

lemma makeAuthRequest_with_token:
  assumes "\<not> falsy (getToken (cookie b))"
    and "request_options stringify (getToken (cookie b)) url method data = Inr req"
    and "liveToast b = Some toastEl" "toast_text toastEl = Some old" "bootstrap b"
  shows "makeAuthRequest stringify fetch url method data b =
     (case fetch req of
        Rejects e \<Rightarrow>
          (Inr NullValue,
           b\<lparr>overlays := tl (overlays b @ [msg_sending]), fetched := fetched b @ [req],
             liveToast := Some (toastEl
                \<lparr>toast_text := Some msg_server_error,
                 toast_className := js ''toast alert-danger'',
                 toast_shown := Suc (toast_shown toastEl)\<rparr>),
             console_errors := console_errors b @ [e]\<rparr>)
      | Responds status body \<Rightarrow>
          if status = 401 then
            (Inr NullValue,
             b\<lparr>overlays := tl (overlays b @ [msg_sending]), fetched := fetched b @ [req],
               liveToast := Some (toastEl
                  \<lparr>toast_text := Some msg_relogin,
                   toast_className := js ''toast alert-warning'',
                   toast_shown := Suc (toast_shown toastEl)\<rparr>),
               href := js ''/login''\<rparr>)
          else (case body of
                  Inl e \<Rightarrow>
                    (Inr NullValue,
                     b\<lparr>overlays := tl (tl (overlays b @ [msg_sending])),
                       fetched := fetched b @ [req],
                       liveToast := Some (toastEl
                          \<lparr>toast_text := Some msg_server_error,
                           toast_className := js ''toast alert-danger'',
                           toast_shown := Suc (toast_shown toastEl)\<rparr>),
                       console_errors := console_errors b @ [e]\<rparr>)
                | Inr j \<Rightarrow>
                    (Inr (Parsed j),
                     b\<lparr>overlays := tl (overlays b @ [msg_sending]),
                       fetched := fetched b @ [req]\<rparr>)))"
  using assms
  by (simp add: makeAuthRequest_def try_catch_def Let_def showLoading_def hideLoading_tl
        showToast_def toast_class_own toast_class_names console_error_def
        split: fetch_result.splits sum.splits)

lemma browser1_page:
  "liveToast browser1 = Some toast0" "toast_text toast0 = Some []" "bootstrap browser1"
  "overlays browser1 = []" "console_errors browser1 = []"
  by (simp_all add: browser1_def browser0_def toast0_def)

text \<open>
  Claim C5. Whenever \<^verbatim>\<open>getToken\<close> yields no usable token from the cookie string
  (\<^verbatim>\<open>null\<close>, \<^verbatim>\<open>undefined\<close> or the empty string), \<^verbatim>\<open>makeAuthRequest\<close> hands nothing
  to \<^verbatim>\<open>fetch\<close>, sets the location to the login page, resolves to \<^verbatim>\<open>undefined\<close> and
  leaves the loading overlays as they were: nothing but the location changes.
\<close>

theorem makeAuthRequest_without_token:
  assumes "falsy (getToken (cookie b))"
  shows "makeAuthRequest stringify fetch url method data b = (Inr NoValue, b\<lparr>href := js ''/login''\<rparr>)
         \<and> fetched (snd (makeAuthRequest stringify fetch url method data b)) = fetched b
         \<and> overlays (snd (makeAuthRequest stringify fetch url method data b)) = overlays b
         \<and> href (snd (makeAuthRequest stringify fetch url method data b)) = js ''/login''"
  using assms by (simp add: makeAuthRequest_def)

theorem makeAuthRequest_without_token_witness:
  "falsy (getToken (cookie browser0))
   \<and> makeAuthRequest stringify_ok (\<lambda>r. Responds 200 (Inr ())) (js ''/profile'')
        (js ''GET'') None browser0
       = (Inr NoValue, browser0\<lparr>href := js ''/login''\<rparr>)
   \<and> fetched (snd (makeAuthRequest stringify_ok (\<lambda>r. Responds 200 (Inr ()))
        (js ''/profile'') (js ''GET'') None browser0)) = []"
proof -
  have h: "falsy (getToken (cookie browser0))"
    by (simp add: browser0_def getToken_empty falsy_def)
  from makeAuthRequest_without_token [OF h, of stringify_ok "\<lambda>r. Responds 200 (Inr ())"
      "js ''/profile''" "js ''GET''" None] h
  show ?thesis by (simp add: browser0_def)
qed

text \<open>
  Claim C6, as the script has it. On a page that has the toast container with its body
  and the toast widget, and for a payload that \<^verbatim>\<open>JSON.stringify\<close> accepts (so that the
  request \<open>req\<close> is built), the promise of \<^verbatim>\<open>makeAuthRequest\<close> is resolved, never
  rejected, whatever the network does. A 401 response gives the warning toast, the
  location of the login page and \<^verbatim>\<open>null\<close>. A rejected \<^verbatim>\<open>fetch\<close> and a body that fails
  to parse are caught: \<^verbatim>\<open>hideLoading\<close> removes the first loading overlay of the page
  (once after a rejected \<^verbatim>\<open>fetch\<close>, twice after a body that fails to parse), which is
  this call's own overlay when the page had none before; the error toast is shown, the
  error is logged, and the result is \<^verbatim>\<open>null\<close>. The result is a parsed body exactly on
  the path of a token, a status other than 401 and a body that parses.
\<close>

theorem makeAuthRequest_resolves_on_working_page:
  fixes stringify :: "'d \<Rightarrow> js_error + jstring" and fetch :: "request \<Rightarrow> 'j fetch_result"
  defines "res url method data b \<equiv> makeAuthRequest stringify fetch url method data b"
  assumes page: "liveToast b = Some toastEl" "toast_text toastEl = Some old" "bootstrap b"
    and built: "request_options stringify (getToken (cookie b)) url method data = Inr req"
  shows
    "(\<exists>v. fst (res url method data b) = Inr v)
     \<and> (\<not> falsy (getToken (cookie b)) \<and> fetch req = Responds 401 body \<longrightarrow>
          fst (res url method data b) = Inr NullValue
          \<and> href (snd (res url method data b)) = js ''/login''
          \<and> liveToast (snd (res url method data b)) =
               Some (toastEl\<lparr>toast_text := Some msg_relogin,
                             toast_className := js ''toast alert-warning'',
                             toast_shown := Suc (toast_shown toastEl)\<rparr>))
     \<and> (\<not> falsy (getToken (cookie b)) \<and> fetch req = Rejects e \<longrightarrow>
          fst (res url method data b) = Inr NullValue
          \<and> overlays (snd (res url method data b)) = tl (overlays b @ [msg_sending])
          \<and> liveToast (snd (res url method data b)) =
               Some (toastEl\<lparr>toast_text := Some msg_server_error,
                             toast_className := js ''toast alert-danger'',
                             toast_shown := Suc (toast_shown toastEl)\<rparr>)
          \<and> console_errors (snd (res url method data b)) = console_errors b @ [e])
     \<and> (\<not> falsy (getToken (cookie b)) \<and> status \<noteq> 401
          \<and> fetch req = Responds status (Inl e) \<longrightarrow>
          fst (res url method data b) = Inr NullValue
          \<and> overlays (snd (res url method data b)) = tl (tl (overlays b @ [msg_sending]))
          \<and> liveToast (snd (res url method data b)) =
               Some (toastEl\<lparr>toast_text := Some msg_server_error,
                             toast_className := js ''toast alert-danger'',
                             toast_shown := Suc (toast_shown toastEl)\<rparr>)
          \<and> console_errors (snd (res url method data b)) = console_errors b @ [e])
     \<and> (overlays b = [] \<longrightarrow> overlays (snd (res url method data b)) = [])
     \<and> (fst (res url method data b) = Inr (Parsed j) \<longleftrightarrow>
          \<not> falsy (getToken (cookie b))
          \<and> (\<exists>status. status \<noteq> 401 \<and> fetch req = Responds status (Inr j)))"
proof (cases "falsy (getToken (cookie b))")
  case True
  then show ?thesis
    by (simp add: res_def makeAuthRequest_def)
next
  case False
  note run = makeAuthRequest_with_token [OF False built page, of fetch]
  show ?thesis
  proof (cases "fetch req")
    case (Rejects x)
    with False show ?thesis
      unfolding res_def run by auto
  next
    case (Responds st bd)
    show ?thesis
    proof (cases "st = 401")
      case True
      with False Responds show ?thesis
        unfolding res_def run by simp
    next
      case neq: False
      show ?thesis
      proof (cases bd)
        case (Inl x)
        with False Responds neq show ?thesis
          unfolding res_def run by auto
      next
        case (Inr y)
        with False Responds neq show ?thesis
          unfolding res_def run by auto
      qed
    qed
  qed
qed

theorem makeAuthRequest_resolves_on_working_page_witness:
  "fst (makeAuthRequest stringify_ok (\<lambda>r. Responds 401 (Inr (0 :: nat)))
          (js ''/profile'') (js ''GET'') None browser1) = Inr NullValue
   \<and> href (snd (makeAuthRequest stringify_ok (\<lambda>r. Responds 401 (Inr (0 :: nat)))
          (js ''/profile'') (js ''GET'') None browser1)) = js ''/login''
   \<and> fst (makeAuthRequest stringify_ok fetch_offline
          (js ''/profile'') (js ''GET'') None browser1) = Inr NullValue
   \<and> console_errors (snd (makeAuthRequest stringify_ok fetch_offline
          (js ''/profile'') (js ''GET'') None browser1)) = [NetworkError]
   \<and> overlays (snd (makeAuthRequest stringify_ok fetch_offline
          (js ''/profile'') (js ''GET'') None browser1)) = []
   \<and> fst (makeAuthRequest stringify_ok (\<lambda>r. Responds 200 (Inl SyntaxError) :: nat fetch_result)
          (js ''/profile'') (js ''GET'') None browser1) = Inr NullValue
   \<and> fst (makeAuthRequest stringify_ok (\<lambda>r. Responds 200 (Inr (7 :: nat)))
          (js ''/profile'') (js ''GET'') None browser1) = Inr (Parsed 7)"
proof -
  obtain req1 where built:
    "request_options stringify_ok (getToken (cookie browser1)) (js ''/profile'') (js ''GET'') None
       = Inr req1"
    by (simp add: request_options_def)
  note page = browser1_page(1-3)
  have unauthorised:
    "fst (makeAuthRequest stringify_ok (\<lambda>r. Responds 401 (Inr (0 :: nat)))
          (js ''/profile'') (js ''GET'') None browser1) = Inr NullValue
     \<and> href (snd (makeAuthRequest stringify_ok (\<lambda>r. Responds 401 (Inr (0 :: nat)))
          (js ''/profile'') (js ''GET'') None browser1)) = js ''/login''"
    using makeAuthRequest_resolves_on_working_page [OF page built,
        where fetch = "\<lambda>r. Responds 401 (Inr (0 :: nat))" and body = "Inr 0"]
      browser1_token
    by simp
  have rejected:
    "fst (makeAuthRequest stringify_ok fetch_offline
          (js ''/profile'') (js ''GET'') None browser1) = Inr NullValue
     \<and> console_errors (snd (makeAuthRequest stringify_ok fetch_offline
          (js ''/profile'') (js ''GET'') None browser1)) = [NetworkError]
     \<and> overlays (snd (makeAuthRequest stringify_ok fetch_offline
          (js ''/profile'') (js ''GET'') None browser1)) = []"
    using makeAuthRequest_resolves_on_working_page [OF page built,
        where fetch = fetch_offline and e = NetworkError]
      browser1_token browser1_page(4,5)
    by (simp add: fetch_offline_def)
  have unparsed:
    "fst (makeAuthRequest stringify_ok (\<lambda>r. Responds 200 (Inl SyntaxError) :: nat fetch_result)
          (js ''/profile'') (js ''GET'') None browser1) = Inr NullValue"
    using makeAuthRequest_resolves_on_working_page [OF page built,
        where fetch = "\<lambda>r. Responds 200 (Inl SyntaxError) :: nat fetch_result"
          and e = SyntaxError and status = 200]
      browser1_token
    by simp
  have parsed:
    "fst (makeAuthRequest stringify_ok (\<lambda>r. Responds 200 (Inr (7 :: nat)))
          (js ''/profile'') (js ''GET'') None browser1) = Inr (Parsed 7)"
    using makeAuthRequest_resolves_on_working_page [OF page built,
        where fetch = "\<lambda>r. Responds 200 (Inr (7 :: nat))" and j = 7]
      browser1_token
    by simp
  from unauthorised rejected unparsed parsed show ?thesis by blast
qed

text \<open>
  Claim C6 as worded lets no error reach the caller and has the loading overlay dismissed
  whenever an exception is caught. On a page without the toast container the
  \<^verbatim>\<open>showToast\<close> call of the \<^verbatim>\<open>catch\<close> block raises a TypeError and the promise is
  rejected. On a page that still shows an earlier overlay, \<^verbatim>\<open>hideLoading\<close> removes that
  one and the overlay of this call stays. A payload that \<^verbatim>\<open>JSON.stringify\<close> cannot
  serialise raises before the \<^verbatim>\<open>try\<close> block of a POST and the promise is rejected.
\<close>

theorem makeAuthRequest_rejects_or_keeps_overlay:
  "fst (makeAuthRequest stringify_ok fetch_offline (js ''/profile'') (js ''GET'') None
          browser_without_toast) = Inl TypeError
   \<and> fst (makeAuthRequest stringify_ok fetch_offline (js ''/profile'') (js ''GET'') None
          browser_with_overlay) = Inr NullValue
   \<and> overlays (snd (makeAuthRequest stringify_ok fetch_offline (js ''/profile'') (js ''GET'') None
          browser_with_overlay)) = [msg_sending]
   \<and> fst (makeAuthRequest stringify_cyclic fetch_offline (js ''/profile'') (js ''POST'') (Some ())
          browser1) = Inl TypeError"
proof -
  have tok: "\<not> falsy (getToken (cookie browser_without_toast))"
    "\<not> falsy (getToken (cookie browser_with_overlay))"
    using browser1_token by (simp_all add: browser_without_toast_def browser_with_overlay_def)
  have a: "fst (makeAuthRequest stringify_ok fetch_offline (js ''/profile'') (js ''GET'') None
          browser_without_toast) = Inl TypeError"
    using tok(1)
    by (simp add: Let_def makeAuthRequest_def request_options_def try_catch_def fetch_offline_def
          showLoading_def hideLoading_tl showToast_def browser_without_toast_def)
  have b: "fst (makeAuthRequest stringify_ok fetch_offline (js ''/profile'') (js ''GET'') None
          browser_with_overlay) = Inr NullValue
     \<and> overlays (snd (makeAuthRequest stringify_ok fetch_offline (js ''/profile'') (js ''GET'') None
          browser_with_overlay)) = [msg_sending]"
    using tok(2)
    by (simp add: Let_def makeAuthRequest_def request_options_def try_catch_def fetch_offline_def
          showLoading_def hideLoading_tl showToast_def console_error_def
          browser_with_overlay_def browser1_def browser0_def toast0_def)
  have c: "fst (makeAuthRequest stringify_cyclic fetch_offline (js ''/profile'') (js ''POST'')
          (Some ()) browser1) = Inl TypeError"
    using browser1_token
    by (simp add: Let_def makeAuthRequest_def request_options_def stringify_cyclic_def)
  from a b c show ?thesis by blast
qed

end
